theory Spec2Isabelle
  imports Complex_Main "HOL-Library.Char_ord" "HOL-Library.List_Lexorder"
begin

section \<open>Data model\<close>

text \<open>
  Rows of the remote store as the client reads them. Identifiers are the store's uuid
  strings. A set row's \<open>reps\<close> is an integer column and \<open>weight\<close> a nullable decimal
  column; the model reads them as \<open>int\<close> and \<open>rat option\<close> (a finite JavaScript
  number denotes a rational; rounding is not modelled). \<open>s_exercise\<close> is the joined
  \<open>exercise:exercises(name)\<close> object, kept as its only field, and is absent on a row
  that comes back from an insert.
\<close>

type_synonym uuid = string

record exercise =
  ex_id :: uuid
  ex_user_id :: uuid
  ex_name :: string
  ex_category :: "string option"
  ex_notes :: "string option"
  ex_is_archived :: bool

record exercise_data =
  ed_name :: string
  ed_category :: "string option"
  ed_notes :: "string option"

record workout =
  w_id :: uuid
  w_user_id :: uuid
  w_date :: string
  w_note :: "string option"

record set_row =
  s_id :: uuid
  s_workout_id :: uuid
  s_exercise_id :: uuid
  s_reps :: int
  s_weight :: "rat option"
  s_order_index :: int
  s_exercise :: "string option"

record workout_with_sets =
  ws_id :: uuid
  ws_date :: string
  ws_sets :: "set_row list"

text \<open>
  A JavaScript number as \<open>addSet\<close> receives it: \<open>NaN\<close> or a finite value. \<open>None\<close> of
  \<open>number option\<close> is \<open>null\<close>.
\<close>

datatype number = NaN | Num rat

record set_data =
  sd_workout_id :: uuid
  sd_exercise_id :: uuid
  sd_reps :: number
  sd_weight :: "number option"
  sd_order_index :: nat

section \<open>Errors and the remote store client's answers\<close>

datatype pg_error = PgError (code: string) (message: string)

datatype js_error =
    NoAuthenticatedUser
  | StoreError pg_error
  | TypeError
  | StorageError

text \<open>
  The calls of \<open>database\<close> that an operation issues, in order. They are recorded in
  the state's \<open>remote_log\<close>, which the source does not have: it is how the model says
  that an operation did or did not contact the remote store.
\<close>

datatype remote_call =
    GetExercises
  | CreateExercise exercise_data
  | DeleteExercise uuid
  | GetTodaysWorkout
  | CreateWorkout string
  | GetSetsForWorkout uuid
  | CreateSet set_data
  | DeleteSet uuid
  | ExportData

text \<open>
  What lies outside the repository, taken as given: the answers of the supabase client to
  each query (\<open>{data, error}\<close>, where \<open>data\<close> is \<open>null\<close> whenever \<open>error\<close> is set, so a
  single-row answer is a sum and a list answer carries an optional list), the signed-in
  user, the calendar date \<open>new Date().toISOString().split('T')[0]\<close>, the locale's string
  comparison, and whether the local key-value storage fails.
\<close>

record backend =
  auth_user :: "uuid option"
  today :: string
  localeCompare :: "string \<Rightarrow> string \<Rightarrow> int"
  exercises_select :: "uuid \<Rightarrow> pg_error + exercise list option"
  exercises_insert :: "exercise_data \<Rightarrow> uuid \<Rightarrow> pg_error + exercise"
  exercises_archive :: "uuid \<Rightarrow> pg_error option"
  workouts_select_single :: "uuid \<Rightarrow> string \<Rightarrow> pg_error + workout"
  workouts_insert :: "uuid \<Rightarrow> string \<Rightarrow> pg_error + workout"
  sets_select :: "uuid \<Rightarrow> pg_error + set_row list option"
  sets_insert :: "set_data \<Rightarrow> pg_error + set_row"
  sets_delete :: "uuid \<Rightarrow> pg_error option"
  workouts_export :: "uuid \<Rightarrow> pg_error + workout_with_sets list option"
  getItem_fails :: bool
  setItem_fails :: bool

section \<open>The remote store client (\<open>database\<close>)\<close>

text \<open>\<open>data || []\<close>\<close>

definition or_empty :: "'a list option \<Rightarrow> 'a list" where
  "or_empty d = (case d of None \<Rightarrow> [] | Some xs \<Rightarrow> xs)"

definition db_getExercises :: "backend \<Rightarrow> js_error + exercise list" where
  "db_getExercises b =
     (case auth_user b of
        None \<Rightarrow> Inl NoAuthenticatedUser
      | Some u \<Rightarrow>
          (case exercises_select b u of
             Inl err \<Rightarrow> Inl (StoreError err)
           | Inr d \<Rightarrow> Inr (or_empty d)))"

definition db_createExercise :: "backend \<Rightarrow> exercise_data \<Rightarrow> js_error + exercise" where
  "db_createExercise b ed =
     (case auth_user b of
        None \<Rightarrow> Inl NoAuthenticatedUser
      | Some u \<Rightarrow>
          (case exercises_insert b ed u of
             Inl err \<Rightarrow> Inl (StoreError err)
           | Inr row \<Rightarrow> Inr row))"

definition db_deleteExercise :: "backend \<Rightarrow> uuid \<Rightarrow> js_error + unit" where
  "db_deleteExercise b i =
     (case exercises_archive b i of
        Some err \<Rightarrow> Inl (StoreError err)
      | None \<Rightarrow> Inr ())"

text \<open>
  \<open>getTodaysWorkout\<close> throws only for an error whose code is not \<open>PGRST116\<close>; with that
  code it returns \<open>data\<close>, which is \<open>null\<close>.
\<close>

definition db_getTodaysWorkout :: "backend \<Rightarrow> js_error + workout option" where
  "db_getTodaysWorkout b =
     (case auth_user b of
        None \<Rightarrow> Inl NoAuthenticatedUser
      | Some u \<Rightarrow>
          (case workouts_select_single b u (today b) of
             Inl err \<Rightarrow> if code err \<noteq> ''PGRST116'' then Inl (StoreError err) else Inr None
           | Inr row \<Rightarrow> Inr (Some row)))"

definition db_createWorkout :: "backend \<Rightarrow> string \<Rightarrow> js_error + workout" where
  "db_createWorkout b d =
     (case auth_user b of
        None \<Rightarrow> Inl NoAuthenticatedUser
      | Some u \<Rightarrow>
          (case workouts_insert b u d of
             Inl err \<Rightarrow> Inl (StoreError err)
           | Inr row \<Rightarrow> Inr row))"

definition db_getSetsForWorkout :: "backend \<Rightarrow> uuid \<Rightarrow> js_error + set_row list" where
  "db_getSetsForWorkout b wid =
     (case sets_select b wid of
        Inl err \<Rightarrow> Inl (StoreError err)
      | Inr d \<Rightarrow> Inr (or_empty d))"

definition db_createSet :: "backend \<Rightarrow> set_data \<Rightarrow> js_error + set_row" where
  "db_createSet b sd =
     (case sets_insert b sd of
        Inl err \<Rightarrow> Inl (StoreError err)
      | Inr row \<Rightarrow> Inr row)"

definition db_deleteSet :: "backend \<Rightarrow> uuid \<Rightarrow> js_error + unit" where
  "db_deleteSet b i =
     (case sets_delete b i of
        Some err \<Rightarrow> Inl (StoreError err)
      | None \<Rightarrow> Inr ())"

definition db_exportData :: "backend \<Rightarrow> js_error + workout_with_sets list" where
  "db_exportData b =
     (case auth_user b of
        None \<Rightarrow> Inl NoAuthenticatedUser
      | Some u \<Rightarrow>
          (case workouts_export b u of
             Inl err \<Rightarrow> Inl (StoreError err)
           | Inr d \<Rightarrow> Inr (or_empty d)))"

section \<open>The data provider's state\<close>

text \<open>
  The five \<open>useState\<close> cells of \<open>DataProvider\<close>, the \<open>'exercises'\<close> item of the local
  storage (the JSON text is identified with the list it serialises) and the log of
  remote calls. An operation reads the cells as they were when it was called, as the
  closure of the source does, and returns the state with every \<open>set...\<close> applied.
\<close>

record state =
  exercises :: "exercise list"
  todayWorkout :: "workout option"
  todaySets :: "set_row list"
  loading :: bool
  syncing :: bool
  storage :: "exercise list option"
  remote_log :: "remote_call list"

definition called :: "remote_call \<Rightarrow> state \<Rightarrow> state" where
  "called c s = s\<lparr>remote_log := remote_log s @ [c]\<rparr>"

text \<open>The in-memory state that the screens read.\<close>

definition in_memory :: "state \<Rightarrow> exercise list \<times> workout option \<times> set_row list" where
  "in_memory s = (exercises s, todayWorkout s, todaySets s)"

section \<open>Derived stats\<close>

record stats =
  totalSets :: nat
  exerciseCount :: nat
  totalReps :: int

text \<open>
  \<open>new Set(xs).size\<close> is the length of \<open>xs\<close> without its duplicates; \<open>reduce\<close> is a
  left fold.
\<close>

definition getTodayStats :: "state \<Rightarrow> stats" where
  "getTodayStats s =
     \<lparr> totalSets = length (todaySets s),
       exerciseCount = length (remdups (map s_exercise_id (todaySets s))),
       totalReps = foldl (\<lambda>sum st. sum + s_reps st) 0 (todaySets s) \<rparr>"

section \<open>JavaScript built-ins used by the operations\<close>

text \<open>
  \<open>Array.prototype.sort\<close> with a comparator is stable: an element goes before the
  first later element that it does not compare greater than. With a consistent
  comparator the result does not depend on the engine's algorithm, and the model is
  insertion from the right.
\<close>

fun insert_cmp :: "('a \<Rightarrow> 'a \<Rightarrow> int) \<Rightarrow> 'a \<Rightarrow> 'a list \<Rightarrow> 'a list" where
  "insert_cmp c x [] = [x]"
| "insert_cmp c x (y # ys) = (if c x y \<le> 0 then x # y # ys else y # insert_cmp c x ys)"

definition sort_cmp :: "('a \<Rightarrow> 'a \<Rightarrow> int) \<Rightarrow> 'a list \<Rightarrow> 'a list" where
  "sort_cmp c xs = foldr (insert_cmp c) xs []"

text \<open>\<open>Array.prototype.join\<close>\<close>

fun join :: "string \<Rightarrow> string list \<Rightarrow> string" where
  "join sep [] = []"
| "join sep [x] = x"
| "join sep (x # y # ys) = x @ sep @ join sep (y # ys)"

text \<open>
  Number to string, as a template literal does it, for a number that prints
  positionally: the sign, the integer part, and the digits of a terminating decimal
  fraction (a decimal column's value prints as itself). \<open>frac_digits\<close> stops after 20
  digits.
\<close>

definition digit_char :: "nat \<Rightarrow> char" where
  "digit_char d = ''0123456789'' ! d"

fun show_nat :: "nat \<Rightarrow> string" where
  "show_nat n = (if n < 10 then [digit_char n] else show_nat (n div 10) @ [digit_char (n mod 10)])"

fun frac_digits :: "nat \<Rightarrow> rat \<Rightarrow> string" where
  "frac_digits 0 r = []"
| "frac_digits (Suc k) r =
     (if r = 0 then []
      else (let d = nat \<lfloor>r * 10\<rfloor> in digit_char d # frac_digits k (r * 10 - of_nat d)))"

definition Number_toString :: "rat \<Rightarrow> string" where
  "Number_toString q =
     (let a = \<bar>q\<bar>; i = nat \<lfloor>a\<rfloor>; f = a - of_nat i
      in (if q < 0 then ''-'' else []) @ show_nat i @
         (if f = 0 then [] else ''.'' @ frac_digits 20 f))"

text \<open>
  \<open>parseInt(x)\<close> on a number reads the integer prefix of its string: for a number that
  prints positionally (magnitude below \<open>1e21\<close> and, unless zero, at least \<open>1e-6\<close>), the
  value truncated toward zero. \<open>parseFloat(x)\<close> on a number is that number.
  The model's numbers are taken in that range.
\<close>

fun parseInt :: "number \<Rightarrow> number" where
  "parseInt NaN = NaN"
| "parseInt (Num q) = Num (of_int (if 0 \<le> q then \<lfloor>q\<rfloor> else \<lceil>q\<rceil>))"

fun parseFloat :: "number \<Rightarrow> number" where
  "parseFloat x = x"

text \<open>Truthiness of \<open>weight\<close>: \<open>null\<close>, \<open>NaN\<close> and \<open>0\<close> are falsy.\<close>

fun truthy :: "number option \<Rightarrow> bool" where
  "truthy None = False"
| "truthy (Some NaN) = False"
| "truthy (Some (Num q)) = (q \<noteq> 0)"

section \<open>The operations of \<open>DataProvider\<close>\<close>

text \<open>
  Each asynchronous operation returns its outcome (\<open>Inl\<close>: the promise rejects with that
  error) and the state after it. \<open>console.error\<close> is not modelled.
\<close>

definition loadTodayWorkout :: "backend \<Rightarrow> state \<Rightarrow> (js_error + unit) \<times> state" where
  "loadTodayWorkout b s =
     (let s0 = called GetTodaysWorkout s in
      case db_getTodaysWorkout b of
        Inl err \<Rightarrow> (Inr (), s0\<lparr>todaySets := []\<rparr>)
      | Inr workout \<Rightarrow>
          (let s1 = s0\<lparr>todayWorkout := workout\<rparr> in
           case workout of
             None \<Rightarrow> (Inr (), s1\<lparr>todaySets := []\<rparr>)
           | Some w \<Rightarrow>
               (let s2 = called (GetSetsForWorkout (w_id w)) s1 in
                case db_getSetsForWorkout b (w_id w) of
                  Inl err \<Rightarrow> (Inr (), s2\<lparr>todaySets := []\<rparr>)
                | Inr sets \<Rightarrow> (Inr (), s2\<lparr>todaySets := sets\<rparr>))))"

definition syncData :: "backend \<Rightarrow> state \<Rightarrow> (js_error + unit) \<times> state" where
  "syncData b s =
     (let s0 = called GetExercises (s\<lparr>syncing := True\<rparr>) in
      case db_getExercises b of
        Inl err \<Rightarrow> (Inr (), s0\<lparr>syncing := False\<rparr>)
      | Inr exercisesData \<Rightarrow>
          (let s1 = s0\<lparr>exercises := exercisesData\<rparr> in
           if setItem_fails b then (Inr (), s1\<lparr>syncing := False\<rparr>)
           else (let s2 = s1\<lparr>storage := Some exercisesData\<rparr>;
                     s3 = snd (loadTodayWorkout b s2)
                 in (Inr (), s3\<lparr>syncing := False\<rparr>))))"

definition loadData :: "backend \<Rightarrow> state \<Rightarrow> (js_error + unit) \<times> state" where
  "loadData b s =
     (let s0 = s\<lparr>loading := True\<rparr> in
      if getItem_fails b then (Inr (), s0\<lparr>loading := False\<rparr>)
      else (let s1 = (case storage s0 of
                        None \<Rightarrow> s0
                      | Some cachedExercises \<Rightarrow> s0\<lparr>exercises := cachedExercises\<rparr>);
                s2 = snd (syncData b s1)
            in (Inr (), s2\<lparr>loading := False\<rparr>)))"

definition by_name :: "backend \<Rightarrow> exercise \<Rightarrow> exercise \<Rightarrow> int" where
  "by_name b x y = localeCompare b (ex_name x) (ex_name y)"

definition createExercise ::
  "backend \<Rightarrow> exercise_data \<Rightarrow> state \<Rightarrow> (js_error + exercise) \<times> state" where
  "createExercise b exerciseData s =
     (let s0 = called (CreateExercise exerciseData) s in
      case db_createExercise b exerciseData of
        Inl err \<Rightarrow> (Inl err, s0)
      | Inr newExercise \<Rightarrow>
          (let updatedExercises = sort_cmp (by_name b) (exercises s @ [newExercise]);
               s1 = s0\<lparr>exercises := updatedExercises\<rparr>
           in if setItem_fails b then (Inl StorageError, s1)
              else (Inr newExercise, s1\<lparr>storage := Some updatedExercises\<rparr>)))"

definition deleteExercise :: "backend \<Rightarrow> uuid \<Rightarrow> state \<Rightarrow> (js_error + unit) \<times> state" where
  "deleteExercise b exerciseId s =
     (let s0 = called (DeleteExercise exerciseId) s in
      case db_deleteExercise b exerciseId of
        Inl err \<Rightarrow> (Inl err, s0)
      | Inr _ \<Rightarrow>
          (let updatedExercises = filter (\<lambda>ex. ex_id ex \<noteq> exerciseId) (exercises s);
               s1 = s0\<lparr>exercises := updatedExercises\<rparr>
           in if setItem_fails b then (Inl StorageError, s1)
              else (Inr (), s1\<lparr>storage := Some updatedExercises\<rparr>)))"

text \<open>The block \<open>// Ensure we have today's workout\<close> of \<open>addSet\<close>.\<close>

definition addSet_workout :: "backend \<Rightarrow> state \<Rightarrow> (js_error + workout) \<times> state" where
  "addSet_workout b s =
     (case todayWorkout s of
        Some w \<Rightarrow> (Inr w, s)
      | None \<Rightarrow>
          (let s0 = called (CreateWorkout (today b)) s in
           case db_createWorkout b (today b) of
             Inl err \<Rightarrow> (Inl err, s0)
           | Inr w \<Rightarrow> (Inr w, s0\<lparr>todayWorkout := Some w\<rparr>)))"

text \<open>\<open>exercise?.name || 'Unknown'\<close>\<close>

definition display_name :: "exercise option \<Rightarrow> string" where
  "display_name e =
     (case e of
        None \<Rightarrow> ''Unknown''
      | Some ex \<Rightarrow> if ex_name ex = [] then ''Unknown'' else ex_name ex)"

text \<open>The object \<open>setData\<close> that \<open>addSet\<close> sends to \<open>createSet\<close>.\<close>

definition setData :: "workout \<Rightarrow> uuid \<Rightarrow> number \<Rightarrow> number option \<Rightarrow> state \<Rightarrow> set_data" where
  "setData workout exerciseId reps weight s =
     \<lparr> sd_workout_id = w_id workout,
       sd_exercise_id = exerciseId,
       sd_reps = parseInt reps,
       sd_weight = (if truthy weight then map_option parseFloat weight else None),
       sd_order_index = length (todaySets s) \<rparr>"

definition addSet ::
  "backend \<Rightarrow> uuid \<Rightarrow> number \<Rightarrow> number option \<Rightarrow> state \<Rightarrow> (js_error + set_row) \<times> state" where
  "addSet b exerciseId reps weight s =
     (case addSet_workout b s of
        (Inl err, s1) \<Rightarrow> (Inl err, s1)
      | (Inr workout, s1) \<Rightarrow>
          (let s2 = called (CreateSet (setData workout exerciseId reps weight s)) s1
           in case db_createSet b (setData workout exerciseId reps weight s) of
                Inl err \<Rightarrow> (Inl err, s2)
              | Inr newSet \<Rightarrow>
                  (let exercise = find (\<lambda>ex. ex_id ex = exerciseId) (exercises s);
                       setWithExercise = newSet\<lparr>s_exercise := Some (display_name exercise)\<rparr>
                   in (Inr newSet, s2\<lparr>todaySets := todaySets s @ [setWithExercise]\<rparr>))))"

definition deleteSet :: "backend \<Rightarrow> uuid \<Rightarrow> state \<Rightarrow> (js_error + unit) \<times> state" where
  "deleteSet b setId s =
     (let s0 = called (DeleteSet setId) s in
      case db_deleteSet b setId of
        Inl err \<Rightarrow> (Inl err, s0)
      | Inr _ \<Rightarrow> (Inr (), s0\<lparr>todaySets := filter (\<lambda>st. s_id st \<noteq> setId) (todaySets s)\<rparr>))"

section \<open>The form of \<open>AddSetScreen\<close>\<close>








section \<open>Export\<close>

text \<open>\<open>set.weight || ''\<close>: the weight's text, or nothing for a falsy weight.\<close>

definition weight_field :: "rat option \<Rightarrow> string" where
  "weight_field w =
     (case w of
        None \<Rightarrow> []
      | Some q \<Rightarrow> if q = 0 then [] else Number_toString q)"

text \<open>
  The five holes of the row's template literal, in order. Reading \<open>set.exercise.name\<close>
  of a set whose \<open>exercise\<close> is \<open>null\<close> throws a \<open>TypeError\<close>.
\<close>

definition csv_fields :: "string \<Rightarrow> set_row \<Rightarrow> nat \<Rightarrow> js_error + string list" where
  "csv_fields date st index =
     (case s_exercise st of
        None \<Rightarrow> Inl TypeError
      | Some name \<Rightarrow>
          Inr [date, name, Number_toString (of_nat (index + 1)),
               Number_toString (of_int (s_reps st)), weight_field (s_weight st)])"

definition csv_row :: "string \<Rightarrow> set_row \<Rightarrow> nat \<Rightarrow> js_error + string" where
  "csv_row date st index = map_sum id (join '','') (csv_fields date st index)"

text \<open>\<open>workout.sets.forEach((set, index) => csvRows.push(...))\<close>\<close>

fun sets_forEach :: "string \<Rightarrow> set_row list \<Rightarrow> nat \<Rightarrow> string list \<Rightarrow> js_error + string list" where
  "sets_forEach date [] index csvRows = Inr csvRows"
| "sets_forEach date (st # sts) index csvRows =
     (case csv_row date st index of
        Inl err \<Rightarrow> Inl err
      | Inr row \<Rightarrow> sets_forEach date sts (Suc index) (csvRows @ [row]))"

text \<open>\<open>data.forEach(workout => ...)\<close>\<close>

fun data_forEach :: "workout_with_sets list \<Rightarrow> string list \<Rightarrow> js_error + string list" where
  "data_forEach [] csvRows = Inr csvRows"
| "data_forEach (w # ws) csvRows =
     (case sets_forEach (ws_date w) (ws_sets w) 0 csvRows of
        Inl err \<Rightarrow> Inl err
      | Inr rows \<Rightarrow> data_forEach ws rows)"

definition csv_header :: string where
  "csv_header = ''Date,Exercise,Set,Reps,Weight''"

definition newline :: string where
  "newline = [CHR 0x0A]"

definition exportData :: "backend \<Rightarrow> state \<Rightarrow> (js_error + string) \<times> state" where
  "exportData b s =
     (let s0 = called ExportData s in
      case db_exportData b of
        Inl err \<Rightarrow> (Inl err, s0)
      | Inr data \<Rightarrow>
          (case data_forEach data [csv_header] of
             Inl err \<Rightarrow> (Inl err, s0)
           | Inr csvRows \<Rightarrow> (Inr (join newline csvRows), s0)))"

section \<open>Notions of the specification\<close>

text \<open>
  The position the specification gives a set in the export: its 1-based position among
  the sets of the same exercise in its workout.
\<close>

definition spec_group_position :: "set_row list \<Rightarrow> nat \<Rightarrow> nat" where
  "spec_group_position sets i =
     length (filter (\<lambda>st. s_exercise_id st = s_exercise_id (sets ! i)) (take (Suc i) sets))"

text \<open>A set with its weight made absent when it is zero.\<close>

definition weight_zero_to_absent :: "set_row \<Rightarrow> set_row" where
  "weight_zero_to_absent st = (if s_weight st = Some 0 then st\<lparr>s_weight := None\<rparr> else st)"



text \<open>
  A comparator that \<open>sort\<close> can rely on: any two elements are comparable, and the order
  is transitive. The list of exercises is sorted by name when no exercise compares
  greater than a later one.
\<close>

definition consistent_cmp :: "('a \<Rightarrow> 'a \<Rightarrow> int) \<Rightarrow> bool" where
  "consistent_cmp c =
     ((\<forall>x y. c x y \<le> 0 \<or> c y x \<le> 0)
      \<and> (\<forall>x y z. c x y \<le> 0 \<longrightarrow> c y z \<le> 0 \<longrightarrow> c x z \<le> 0))"

definition name_sorted :: "backend \<Rightarrow> exercise list \<Rightarrow> bool" where
  "name_sorted b xs = sorted_wrt (\<lambda>x y. by_name b x y \<le> 0) xs"

section \<open>Sample values\<close>

definition push_ups_1 :: set_row where
  "push_ups_1 = \<lparr> s_id = ''s1'', s_workout_id = ''w1'', s_exercise_id = ''e1'', s_reps = 5,
                   s_weight = None, s_order_index = 0, s_exercise = Some ''Push-ups'' \<rparr>"

definition squats_1 :: set_row where
  "squats_1 = \<lparr> s_id = ''s2'', s_workout_id = ''w1'', s_exercise_id = ''e2'', s_reps = 8,
                 s_weight = Some 20, s_order_index = 1, s_exercise = Some ''Squats'' \<rparr>"

definition push_ups_2 :: set_row where
  "push_ups_2 = \<lparr> s_id = ''s3'', s_workout_id = ''w1'', s_exercise_id = ''e1'', s_reps = 10,
                   s_weight = Some 0, s_order_index = 2, s_exercise = Some ''Push-ups'' \<rparr>"

definition state0 :: state where
  "state0 = \<lparr> exercises = [], todayWorkout = None, todaySets = [], loading = False,
               syncing = False, storage = None, remote_log = [] \<rparr>"

text \<open>
  A store for the examples: one signed-in user, no workout yet today, every insert
  answered with the row inserted, and strings compared by code point.
\<close>

definition cmp_str :: "string \<Rightarrow> string \<Rightarrow> int" where
  "cmp_str a b = (if a < b then - 1 else if a = b then 0 else 1)"

definition inserted_row :: "set_data \<Rightarrow> set_row" where
  "inserted_row sd =
     \<lparr> s_id = ''s9'', s_workout_id = sd_workout_id sd, s_exercise_id = sd_exercise_id sd,
       s_reps = (case sd_reps sd of NaN \<Rightarrow> 0 | Num q \<Rightarrow> \<lfloor>q\<rfloor>),
       s_weight = (case sd_weight sd of Some (Num q) \<Rightarrow> Some q | _ \<Rightarrow> None),
       s_order_index = int (sd_order_index sd), s_exercise = None \<rparr>"

definition bench :: exercise where
  "bench = \<lparr> ex_id = ''e1'', ex_user_id = ''u1'', ex_name = ''Bench press'',
              ex_category = None, ex_notes = None, ex_is_archived = False \<rparr>"

definition squat :: exercise where
  "squat = \<lparr> ex_id = ''e2'', ex_user_id = ''u1'', ex_name = ''Squat'',
              ex_category = None, ex_notes = None, ex_is_archived = False \<rparr>"

definition workout1 :: workout where
  "workout1 = \<lparr> w_id = ''w1'', w_user_id = ''u1'', w_date = ''2024-01-01'', w_note = None \<rparr>"

definition backend0 :: backend where
  "backend0 =
     \<lparr> auth_user = Some ''u1'',
       today = ''2024-01-01'',
       localeCompare = cmp_str,
       exercises_select = (\<lambda>u. Inr (Some [bench, squat])),
       exercises_insert = (\<lambda>ed u. Inr \<lparr> ex_id = ''e9'', ex_user_id = u, ex_name = ed_name ed,
                                         ex_category = ed_category ed, ex_notes = ed_notes ed,
                                         ex_is_archived = False \<rparr>),
       exercises_archive = (\<lambda>i. None),
       workouts_select_single = (\<lambda>u d. Inl (PgError ''PGRST116'' ''no rows'')),
       workouts_insert = (\<lambda>u d. Inr (workout1\<lparr>w_user_id := u, w_date := d\<rparr>)),
       sets_select = (\<lambda>w. Inr (Some [])),
       sets_insert = (\<lambda>sd. Inr (inserted_row sd)),
       sets_delete = (\<lambda>i. None),
       workouts_export = (\<lambda>u. Inr (Some [\<lparr> ws_id = ''w1'', ws_date = ''2024-01-01'',
                                              ws_sets = [push_ups_1, squats_1, push_ups_2] \<rparr>])),
       getItem_fails = False,
       setItem_fails = False \<rparr>"

definition connection_failure :: pg_error where
  "connection_failure = PgError ''08006'' ''connection failure''"

definition stale_state :: state where
  "stale_state = state0\<lparr>todayWorkout := Some workout1, todaySets := [push_ups_1]\<rparr>"

text \<open>A store in which every query fails, and the data of a new exercise.\<close>

definition offline :: backend where
  "offline =
     backend0\<lparr> exercises_select := \<lambda>u. Inl connection_failure,
                exercises_insert := \<lambda>ed u. Inl connection_failure,
                exercises_archive := \<lambda>i. Some connection_failure,
                workouts_select_single := \<lambda>u d. Inl connection_failure,
                workouts_insert := \<lambda>u d. Inl connection_failure,
                sets_select := \<lambda>w. Inl connection_failure,
                sets_insert := \<lambda>sd. Inl connection_failure,
                sets_delete := \<lambda>i. Some connection_failure,
                workouts_export := \<lambda>u. Inl connection_failure \<rparr>"

definition deadlift_data :: exercise_data where
  "deadlift_data = \<lparr> ed_name = ''Deadlift'', ed_category = None, ed_notes = None \<rparr>"


section \<open>Derived stats: properties\<close>

lemma foldl_plus_sum_list:
  "foldl (\<lambda>sum st. sum + f st) a xs = a + sum_list (map f xs)"
  by (induction xs arbitrary: a) (simp_all add: add.assoc)

text \<open>
  C6. \<open>getTodayStats\<close> returns the number of today's sets, the number of distinct
  \<open>exercise_id\<close> values among them and the sum of their reps. On no sets it returns
  zeros; on three sets with reps 5, 8 and 10 over two distinct exercises it returns
  3, 2 and 23. It is a function of \<open>todaySets\<close> alone: it issues no call and returns no
  state.
\<close>

theorem getTodayStats_counts:
  "getTodayStats s =
     \<lparr> totalSets = length (todaySets s),
       exerciseCount = card (s_exercise_id ` set (todaySets s)),
       totalReps = sum_list (map s_reps (todaySets s)) \<rparr>
   \<and> (todaySets s = [] \<longrightarrow>
        getTodayStats s = \<lparr> totalSets = 0, exerciseCount = 0, totalReps = 0 \<rparr>)
   \<and> (todaySets s = [x, y, z] \<and> map s_reps [x, y, z] = [5, 8, 10]
        \<and> card (s_exercise_id ` {x, y, z}) = 2 \<longrightarrow>
        getTodayStats s = \<lparr> totalSets = 3, exerciseCount = 2, totalReps = 23 \<rparr>)
   \<and> (todaySets s' = todaySets s \<longrightarrow> getTodayStats s' = getTodayStats s)"
proof -
  have main: "getTodayStats s =
     \<lparr> totalSets = length (todaySets s),
       exerciseCount = card (s_exercise_id ` set (todaySets s)),
       totalReps = sum_list (map s_reps (todaySets s)) \<rparr>" for s
    by (simp add: getTodayStats_def foldl_plus_sum_list length_remdups_card_conv)
  have empty: "getTodayStats s = \<lparr> totalSets = 0, exerciseCount = 0, totalReps = 0 \<rparr>"
    if "todaySets s = []"
    using that by (simp add: main)
  have three: "getTodayStats s = \<lparr> totalSets = 3, exerciseCount = 2, totalReps = 23 \<rparr>"
    if "todaySets s = [x, y, z]" "map s_reps [x, y, z] = [5, 8, 10]"
       "card (s_exercise_id ` {x, y, z}) = 2"
    using that by (simp add: main)
  have same: "getTodayStats s' = getTodayStats s" if "todaySets s' = todaySets s"
    using that by (simp add: getTodayStats_def)
  show ?thesis
    apply (intro conjI impI)
       apply (rule main)
      apply (erule empty)
     apply (elim conjE, erule (2) three)
    apply (erule same)
    done
qed

theorem getTodayStats_counts_witness:
  "getTodayStats (state0\<lparr>todaySets := [push_ups_1, squats_1, push_ups_2]\<rparr>) =
     \<lparr> totalSets = 3, exerciseCount = 2, totalReps = 23 \<rparr>
   \<and> getTodayStats state0 = \<lparr> totalSets = 0, exerciseCount = 0, totalReps = 0 \<rparr>
   \<and> getTodayStats (state0\<lparr>loading := True\<rparr>) = getTodayStats state0"
  using getTodayStats_counts
          [of "state0\<lparr>todaySets := [push_ups_1, squats_1, push_ups_2]\<rparr>"
              push_ups_1 squats_1 push_ups_2 state0]
        getTodayStats_counts [of state0 push_ups_1 squats_1 push_ups_2 "state0\<lparr>loading := True\<rparr>"]
  by (simp add: state0_def push_ups_1_def squats_1_def push_ups_2_def card_insert_if)

section \<open>Export: properties\<close>

text \<open>
  C1. The specification numbers a set by its position among the sets of the same
  exercise in its workout. \<open>exportData\<close> writes \<open>index + 1\<close>, the position among all
  the sets of the workout: a workout with a set of push-ups, a set of squats and a second
  set of push-ups is exported with 1, 2, 3 in the Set field, where the positions within
  the exercise groups are 1, 1, 2.
\<close>

theorem exportData_numbers_rows_of_workout:
  "fst (exportData backend0 state0) =
     Inr (join newline [csv_header, ''2024-01-01,Push-ups,1,5,'', ''2024-01-01,Squats,2,8,20'',
                        ''2024-01-01,Push-ups,3,10,''])
   \<and> map (spec_group_position [push_ups_1, squats_1, push_ups_2]) [0, 1, 2] = [1, 1, 2]"
  by (simp add: exportData_def db_exportData_def backend0_def or_empty_def csv_row_def
      csv_fields_def weight_field_def Number_toString_def digit_char_def push_ups_1_def
      squats_1_def push_ups_2_def spec_group_position_def)

lemma show_nat_not_empty: "show_nat n \<noteq> []"
  by (subst show_nat.simps) simp

lemma Number_toString_not_empty: "Number_toString q \<noteq> []"
  by (simp add: Number_toString_def Let_def show_nat_not_empty del: show_nat.simps)

lemma csv_row_zero_to_absent: "csv_row date (weight_zero_to_absent st) i = csv_row date st i"
proof -
  have "csv_fields date (weight_zero_to_absent st) i = csv_fields date st i"
    by (simp add: csv_fields_def weight_zero_to_absent_def weight_field_def split: option.splits)
  then show ?thesis by (simp add: csv_row_def)
qed

lemma sets_forEach_zero_to_absent:
  "sets_forEach date (map weight_zero_to_absent sets) i rows = sets_forEach date sets i rows"
  by (induction sets arbitrary: i rows) (simp_all add: csv_row_zero_to_absent split: sum.splits)

lemma data_forEach_zero_to_absent:
  "data_forEach (map (\<lambda>w. w\<lparr>ws_sets := map weight_zero_to_absent (ws_sets w)\<rparr>) data) rows
     = data_forEach data rows"
  by (induction data arbitrary: rows) (simp_all add: sets_forEach_zero_to_absent split: sum.splits)

lemma csv_row_named:
  assumes "s_exercise st \<noteq> None"
  shows "csv_row date st i =
           Inr (date @ '','' @ the (s_exercise st) @ '','' @ Number_toString (of_nat (i + 1)) @ '','' @
                Number_toString (of_int (s_reps st)) @ '','' @
                (if s_weight st = None \<or> s_weight st = Some 0 then []
                 else Number_toString (the (s_weight st))))"
  using assms
  by (auto simp: csv_row_def csv_fields_def weight_field_def split: option.splits)

lemma sets_forEach_rows:
  assumes "\<And>i st. st \<in> set sets \<Longrightarrow> csv_row date st i = Inr (row i st)"
  shows "sets_forEach date sets k rows = Inr (rows @ map (\<lambda>(i, st). row i st) (enumerate k sets))"
  using assms
proof (induction sets arbitrary: k rows)
  case Nil
  then show ?case by simp
next
  case (Cons st sts)
  have "csv_row date st k = Inr (row k st)"
    by (rule Cons.prems) simp
  moreover have "sets_forEach date sts (Suc k) (rows @ [row k st])
                   = Inr ((rows @ [row k st]) @ map (\<lambda>(i, st). row i st) (enumerate (Suc k) sts))"
    by (rule Cons.IH) (simp add: Cons.prems)
  ultimately show ?case by simp
qed

lemma data_forEach_rows:
  assumes "\<And>wk i st. wk \<in> set data \<Longrightarrow> st \<in> set (ws_sets wk)
             \<Longrightarrow> csv_row (ws_date wk) st i = Inr (row wk i st)"
  shows "data_forEach data rows =
           Inr (rows @ concat (map (\<lambda>wk. map (\<lambda>(i, st). row wk i st) (enumerate 0 (ws_sets wk))) data))"
  using assms
proof (induction data arbitrary: rows)
  case Nil
  then show ?case by simp
next
  case (Cons wk wks)
  have "sets_forEach (ws_date wk) (ws_sets wk) 0 rows
          = Inr (rows @ map (\<lambda>(i, st). row wk i st) (enumerate 0 (ws_sets wk)))"
    by (rule sets_forEach_rows) (simp add: Cons.prems)
  moreover have "data_forEach wks (rows @ map (\<lambda>(i, st). row wk i st) (enumerate 0 (ws_sets wk)))
          = Inr ((rows @ map (\<lambda>(i, st). row wk i st) (enumerate 0 (ws_sets wk)))
                 @ concat (map (\<lambda>wk. map (\<lambda>(i, st). row wk i st) (enumerate 0 (ws_sets wk))) wks))"
    by (rule Cons.IH) (simp add: Cons.prems)
  ultimately show ?case by simp
qed

text \<open>
  C10. In the output of \<open>exportData\<close> a weight of 0 is rendered as the empty string, as
  an absent weight is. The output is the header line followed, for every workout in
  order and every set of it in order, by the line of the date, the exercise name, the
  set's position in the workout, the reps and the weight, where the weight is the empty
  string when it is absent or 0 and the number otherwise. So the Weight field is empty
  exactly for the falsy weights, a row does not change when a zero weight is made
  absent, and neither does the whole export.
\<close>

theorem exportData_zero_weight_as_absent:
  "(db_exportData b = Inr data
      \<and> (\<forall>wk\<in>set data. \<forall>st\<in>set (ws_sets wk). s_exercise st \<noteq> None) \<longrightarrow>
    fst (exportData b s) =
      Inr (join [CHR 0x0A] (''Date,Exercise,Set,Reps,Weight'' #
        concat (map (\<lambda>wk. map (\<lambda>(i, st).
            ws_date wk @ '','' @ the (s_exercise st) @ '','' @ Number_toString (of_nat (i + 1))
            @ '','' @ Number_toString (of_int (s_reps st)) @ '','' @
            (if s_weight st = None \<or> s_weight st = Some 0 then []
             else Number_toString (the (s_weight st))))
          (enumerate 0 (ws_sets wk))) data))))
   \<and> weight_field (Some 0) = [] \<and> weight_field None = []
   \<and> (weight_field w = []) = (w = None \<or> w = Some 0)
   \<and> csv_row date (st\<lparr>s_weight := Some 0\<rparr>) i = csv_row date (st\<lparr>s_weight := None\<rparr>) i
   \<and> exportData
        (b\<lparr>workouts_export := \<lambda>u. map_sum id
              (map_option (map (\<lambda>wk. wk\<lparr>ws_sets := map weight_zero_to_absent (ws_sets wk)\<rparr>)))
              (workouts_export b u)\<rparr>) s
       = exportData b s"
proof -
  have rendered: "fst (exportData b s) =
      Inr (join [CHR 0x0A] (''Date,Exercise,Set,Reps,Weight'' #
        concat (map (\<lambda>wk. map (\<lambda>(i, st).
            ws_date wk @ '','' @ the (s_exercise st) @ '','' @ Number_toString (of_nat (i + 1))
            @ '','' @ Number_toString (of_int (s_reps st)) @ '','' @
            (if s_weight st = None \<or> s_weight st = Some 0 then []
             else Number_toString (the (s_weight st))))
          (enumerate 0 (ws_sets wk))) data)))"
    if fetched: "db_exportData b = Inr data"
      and named: "\<forall>wk\<in>set data. \<forall>st\<in>set (ws_sets wk). s_exercise st \<noteq> None"
  proof -
    have row: "csv_row (ws_date wk) st i =
        Inr (ws_date wk @ '','' @ the (s_exercise st) @ '','' @ Number_toString (of_nat (i + 1))
            @ '','' @ Number_toString (of_int (s_reps st)) @ '','' @
            (if s_weight st = None \<or> s_weight st = Some 0 then []
             else Number_toString (the (s_weight st))))"
      if "wk \<in> set data" "st \<in> set (ws_sets wk)" for wk i st
      using that named by (simp add: csv_row_named)
    have "data_forEach data [csv_header] =
      Inr ([csv_header] @
        concat (map (\<lambda>wk. map (\<lambda>(i, st).
            ws_date wk @ '','' @ the (s_exercise st) @ '','' @ Number_toString (of_nat (i + 1))
            @ '','' @ Number_toString (of_int (s_reps st)) @ '','' @
            (if s_weight st = None \<or> s_weight st = Some 0 then []
             else Number_toString (the (s_weight st))))
          (enumerate 0 (ws_sets wk))) data))"
      by (rule data_forEach_rows) (rule row)
    with fetched show ?thesis
      by (simp add: exportData_def csv_header_def newline_def)
  qed
  have field: "(weight_field w = []) = (w = None \<or> w = Some 0)" for w
    by (cases w) (simp_all add: weight_field_def Number_toString_not_empty)
  have row: "csv_row date (st\<lparr>s_weight := Some 0\<rparr>) i = csv_row date (st\<lparr>s_weight := None\<rparr>) i"
    by (simp add: csv_row_def csv_fields_def weight_field_def split: option.splits)
  have db: "db_exportData
        (b\<lparr>workouts_export := \<lambda>u. map_sum id
              (map_option (map (\<lambda>wk. wk\<lparr>ws_sets := map weight_zero_to_absent (ws_sets wk)\<rparr>)))
              (workouts_export b u)\<rparr>)
      = map_sum id (map (\<lambda>wk. wk\<lparr>ws_sets := map weight_zero_to_absent (ws_sets wk)\<rparr>))
          (db_exportData b)"
    by (simp add: db_exportData_def or_empty_def split: option.splits sum.splits)
  have export: "exportData
        (b\<lparr>workouts_export := \<lambda>u. map_sum id
              (map_option (map (\<lambda>wk. wk\<lparr>ws_sets := map weight_zero_to_absent (ws_sets wk)\<rparr>)))
              (workouts_export b u)\<rparr>) s
       = exportData b s"
    unfolding exportData_def db
    by (cases "db_exportData b") (simp_all add: data_forEach_zero_to_absent)
  from rendered field [of w] field [of "Some 0"] field [of None] row export show ?thesis
    by simp
qed

theorem exportData_zero_weight_as_absent_witness:
  "fst (exportData
          (backend0\<lparr>workouts_export := \<lambda>u. Inr (Some
             [\<lparr> ws_id = ''w2'', ws_date = ''2024-02-02'',
                ws_sets = [squats_1\<lparr>s_weight := Some 0\<rparr>, squats_1\<lparr>s_weight := None\<rparr>,
                           squats_1] \<rparr>])\<rparr>) state0)
     = Inr (join [CHR 0x0A]
             [''Date,Exercise,Set,Reps,Weight'', ''2024-02-02,Squats,1,8,'',
              ''2024-02-02,Squats,2,8,'', ''2024-02-02,Squats,3,8,20''])"
proof -
  let ?data = "[\<lparr> ws_id = ''w2'', ws_date = ''2024-02-02'',
                  ws_sets = [squats_1\<lparr>s_weight := Some 0\<rparr>, squats_1\<lparr>s_weight := None\<rparr>,
                             squats_1] \<rparr>]"
  let ?b = "backend0\<lparr>workouts_export := \<lambda>u. Inr (Some ?data)\<rparr>"
  have fetched: "db_exportData ?b = Inr ?data"
    by (simp add: db_exportData_def or_empty_def backend0_def)
  have named: "\<forall>wk\<in>set ?data. \<forall>st\<in>set (ws_sets wk). s_exercise st \<noteq> None"
    by (simp add: squats_1_def)
  from exportData_zero_weight_as_absent [of ?b ?data state0 None "[]" squats_1 0] fetched named
  have "fst (exportData ?b state0) =
      Inr (join [CHR 0x0A] (''Date,Exercise,Set,Reps,Weight'' #
        concat (map (\<lambda>wk. map (\<lambda>(i, st).
            ws_date wk @ '','' @ the (s_exercise st) @ '','' @ Number_toString (of_nat (i + 1))
            @ '','' @ Number_toString (of_int (s_reps st)) @ '','' @
            (if s_weight st = None \<or> s_weight st = Some 0 then []
             else Number_toString (the (s_weight st))))
          (enumerate 0 (ws_sets wk))) ?data)))"
    by blast
  also have "\<dots> = Inr (join [CHR 0x0A]
             [''Date,Exercise,Set,Reps,Weight'', ''2024-02-02,Squats,1,8,'',
              ''2024-02-02,Squats,2,8,'', ''2024-02-02,Squats,3,8,20''])"
    by (simp add: squats_1_def Number_toString_def digit_char_def)
  finally show ?thesis .
qed

section \<open>Loading today's workout: properties\<close>

lemma called_keeps [simp]:
  "exercises (called c s) = exercises s"
  "todayWorkout (called c s) = todayWorkout s"
  "todaySets (called c s) = todaySets s"
  "loading (called c s) = loading s"
  "syncing (called c s) = syncing s"
  "storage (called c s) = storage s"
  "remote_log (called c s) = remote_log s @ [c]"
  by (simp_all add: called_def)

lemma loadTodayWorkout_resolves: "fst (loadTodayWorkout b s) = Inr ()"
  by (simp add: loadTodayWorkout_def Let_def split: sum.splits option.splits)

lemma loadTodayWorkout_fetch_failed:
  assumes "db_getTodaysWorkout b = Inl err"
  shows "snd (loadTodayWorkout b s) = (called GetTodaysWorkout s)\<lparr>todaySets := []\<rparr>"
  using assms by (simp add: loadTodayWorkout_def)

lemma loadTodayWorkout_absent:
  assumes "db_getTodaysWorkout b = Inr None"
  shows "snd (loadTodayWorkout b s) =
           (called GetTodaysWorkout s)\<lparr>todayWorkout := None, todaySets := []\<rparr>"
  using assms by (simp add: loadTodayWorkout_def)

lemma loadTodayWorkout_sets_failed:
  assumes "db_getTodaysWorkout b = Inr (Some w)" and "db_getSetsForWorkout b (w_id w) = Inl err"
  shows "snd (loadTodayWorkout b s) =
           (called (GetSetsForWorkout (w_id w))
              ((called GetTodaysWorkout s)\<lparr>todayWorkout := Some w\<rparr>))\<lparr>todaySets := []\<rparr>"
  using assms by (simp add: loadTodayWorkout_def)

lemma loadTodayWorkout_found:
  assumes "db_getTodaysWorkout b = Inr (Some w)" and "db_getSetsForWorkout b (w_id w) = Inr sets"
  shows "snd (loadTodayWorkout b s) =
           (called (GetSetsForWorkout (w_id w))
              ((called GetTodaysWorkout s)\<lparr>todayWorkout := Some w\<rparr>))\<lparr>todaySets := sets\<rparr>"
  using assms by (simp add: loadTodayWorkout_def)

lemma db_getTodaysWorkout_not_found:
  assumes "auth_user b = Some u"
    and "workouts_select_single b u (today b) = Inl err" and "code err = ''PGRST116''"
  shows "db_getTodaysWorkout b = Inr None"
  using assms by (simp add: db_getTodaysWorkout_def)

text \<open>
  C2, as the code has it. A row-not-found answer (code \<open>PGRST116\<close>) for today's workout
  is not an error: \<open>todayWorkout\<close> becomes absent and \<open>todaySets\<close> empty. Any other
  failure of \<open>getTodaysWorkout\<close>, and any failure of \<open>getSetsForWorkout\<close>, is caught
  inside \<open>loadTodayWorkout\<close>: the operation resolves all the same, \<open>todaySets\<close> is
  emptied, and \<open>todayWorkout\<close> keeps its former value in the first case and is the
  workout just fetched in the second.
\<close>

theorem loadTodayWorkout_swallows_errors:
  "fst (loadTodayWorkout b s) = Inr ()
   \<and> (auth_user b = Some u \<and> workouts_select_single b u (today b) = Inl e \<and> code e = ''PGRST116''
        \<longrightarrow> todayWorkout (snd (loadTodayWorkout b s)) = None
            \<and> todaySets (snd (loadTodayWorkout b s)) = [])
   \<and> (db_getTodaysWorkout b = Inl err
        \<longrightarrow> todaySets (snd (loadTodayWorkout b s)) = []
            \<and> todayWorkout (snd (loadTodayWorkout b s)) = todayWorkout s)
   \<and> (db_getTodaysWorkout b = Inr (Some w) \<and> db_getSetsForWorkout b (w_id w) = Inl err
        \<longrightarrow> todaySets (snd (loadTodayWorkout b s)) = []
            \<and> todayWorkout (snd (loadTodayWorkout b s)) = Some w)"
proof (intro conjI impI)
  show "fst (loadTodayWorkout b s) = Inr ()"
    by (rule loadTodayWorkout_resolves)
next
  assume "auth_user b = Some u \<and> workouts_select_single b u (today b) = Inl e \<and> code e = ''PGRST116''"
  then have nf: "db_getTodaysWorkout b = Inr None"
    by (simp add: db_getTodaysWorkout_not_found)
  show "todayWorkout (snd (loadTodayWorkout b s)) = None"
    by (simp add: loadTodayWorkout_absent [OF nf])
  show "todaySets (snd (loadTodayWorkout b s)) = []"
    by (simp add: loadTodayWorkout_absent [OF nf])
next
  assume f: "db_getTodaysWorkout b = Inl err"
  show "todaySets (snd (loadTodayWorkout b s)) = []"
    by (simp add: loadTodayWorkout_fetch_failed [OF f])
  show "todayWorkout (snd (loadTodayWorkout b s)) = todayWorkout s"
    by (simp add: loadTodayWorkout_fetch_failed [OF f] called_def)
next
  assume "db_getTodaysWorkout b = Inr (Some w) \<and> db_getSetsForWorkout b (w_id w) = Inl err"
  then have a: "db_getTodaysWorkout b = Inr (Some w)" and c: "db_getSetsForWorkout b (w_id w) = Inl err"
    by simp_all
  show "todaySets (snd (loadTodayWorkout b s)) = []"
    by (simp add: loadTodayWorkout_sets_failed [OF a c])
  show "todayWorkout (snd (loadTodayWorkout b s)) = Some w"
    by (simp add: loadTodayWorkout_sets_failed [OF a c] called_def)
qed

theorem loadTodayWorkout_swallows_errors_witness:
  "todayWorkout (snd (loadTodayWorkout backend0 stale_state)) = None
   \<and> todaySets (snd (loadTodayWorkout backend0 stale_state)) = []
   \<and> fst (loadTodayWorkout (backend0\<lparr>workouts_select_single := \<lambda>u d. Inl connection_failure\<rparr>)
            stale_state) = Inr ()
   \<and> todaySets (snd (loadTodayWorkout
        (backend0\<lparr>workouts_select_single := \<lambda>u d. Inl connection_failure\<rparr>) stale_state)) = []
   \<and> todayWorkout (snd (loadTodayWorkout
        (backend0\<lparr>workouts_select_single := \<lambda>u d. Inl connection_failure\<rparr>) stale_state))
       = Some workout1
   \<and> todayWorkout (snd (loadTodayWorkout
        (backend0\<lparr>workouts_select_single := \<lambda>u d. Inr workout1,
                   sets_select := \<lambda>w. Inl connection_failure\<rparr>) state0))
       = Some workout1"
  using loadTodayWorkout_swallows_errors
          [of backend0 stale_state "''u1''" "PgError ''PGRST116'' ''no rows''"]
        loadTodayWorkout_swallows_errors
          [of "backend0\<lparr>workouts_select_single := \<lambda>u d. Inl connection_failure\<rparr>" stale_state
              "''u1''" connection_failure "StoreError connection_failure"]
        loadTodayWorkout_swallows_errors
          [of "backend0\<lparr>workouts_select_single := \<lambda>u d. Inr workout1,
                         sets_select := \<lambda>w. Inl connection_failure\<rparr>" state0
              "''u1''" connection_failure "StoreError connection_failure" workout1]
  by (simp add: backend0_def stale_state_def state0_def connection_failure_def
      db_getTodaysWorkout_def db_getSetsForWorkout_def)

text \<open>
  Against C2 as stated: when \<open>getTodaysWorkout\<close> fails with a connection failure,
  \<open>loadTodayWorkout\<close> does not reject.
\<close>

theorem loadTodayWorkout_does_not_reject:
  "db_getTodaysWorkout (backend0\<lparr>workouts_select_single := \<lambda>u d. Inl connection_failure\<rparr>)
     = Inl (StoreError connection_failure)
   \<and> \<not> isl (fst (loadTodayWorkout
        (backend0\<lparr>workouts_select_single := \<lambda>u d. Inl connection_failure\<rparr>) stale_state))"
  by (simp add: loadTodayWorkout_def db_getTodaysWorkout_def backend0_def connection_failure_def)

text \<open>
  C7. Loading today's workout a second time, against a store that answers as before,
  leaves \<open>todayWorkout\<close> and \<open>todaySets\<close> as the first load left them.
\<close>

theorem loadTodayWorkout_idempotent:
  "todayWorkout (snd (loadTodayWorkout b (snd (loadTodayWorkout b s))))
     = todayWorkout (snd (loadTodayWorkout b s))
   \<and> todaySets (snd (loadTodayWorkout b (snd (loadTodayWorkout b s))))
     = todaySets (snd (loadTodayWorkout b s))
   \<and> fst (loadTodayWorkout b (snd (loadTodayWorkout b s))) = fst (loadTodayWorkout b s)"
proof (cases "db_getTodaysWorkout b")
  case (Inl err)
  then show ?thesis
    by (simp add: loadTodayWorkout_fetch_failed loadTodayWorkout_resolves called_def)
next
  case (Inr workout)
  show ?thesis
  proof (cases workout)
    case None
    with Inr show ?thesis
      by (simp add: loadTodayWorkout_absent loadTodayWorkout_resolves)
  next
    case (Some w)
    with Inr have a: "db_getTodaysWorkout b = Inr (Some w)" by simp
    show ?thesis
    proof (cases "db_getSetsForWorkout b (w_id w)")
      case (Inl err)
      show ?thesis
        by (simp add: loadTodayWorkout_sets_failed [OF a Inl] loadTodayWorkout_resolves)
    next
      case (Inr sets)
      show ?thesis
        by (simp add: loadTodayWorkout_found [OF a Inr] loadTodayWorkout_resolves)
    qed
  qed
qed

theorem loadTodayWorkout_idempotent_witness:
  "todaySets (snd (loadTodayWorkout
      (backend0\<lparr>workouts_select_single := \<lambda>u d. Inr workout1,
                 sets_select := \<lambda>w. Inr (Some [push_ups_1, squats_1])\<rparr>)
      (snd (loadTodayWorkout
        (backend0\<lparr>workouts_select_single := \<lambda>u d. Inr workout1,
                   sets_select := \<lambda>w. Inr (Some [push_ups_1, squats_1])\<rparr>) state0))))
     = [push_ups_1, squats_1]"
  using loadTodayWorkout_idempotent
          [of "backend0\<lparr>workouts_select_single := \<lambda>u d. Inr workout1,
                         sets_select := \<lambda>w. Inr (Some [push_ups_1, squats_1])\<rparr>" state0]
  by (simp add: loadTodayWorkout_def db_getTodaysWorkout_def db_getSetsForWorkout_def
      backend0_def or_empty_def)

section \<open>Mutations: properties\<close>

lemma createExercise_remote_failure:
  assumes "db_createExercise b ed = Inl err"
  shows "createExercise b ed s = (Inl err, called (CreateExercise ed) s)"
  using assms by (simp add: createExercise_def)

lemma deleteExercise_remote_failure:
  assumes "db_deleteExercise b i = Inl err"
  shows "deleteExercise b i s = (Inl err, called (DeleteExercise i) s)"
  using assms by (simp add: deleteExercise_def)

lemma deleteSet_remote_failure:
  assumes "db_deleteSet b i = Inl err"
  shows "deleteSet b i s = (Inl err, called (DeleteSet i) s)"
  using assms by (simp add: deleteSet_def)

lemma addSet_createWorkout_failure:
  assumes "todayWorkout s = None" and "db_createWorkout b (today b) = Inl err"
  shows "addSet b x reps weight s = (Inl err, called (CreateWorkout (today b)) s)"
  using assms by (simp add: addSet_def addSet_workout_def)

lemma addSet_createSet_failure:
  assumes "todayWorkout s = Some w" and "db_createSet b (setData w x reps weight s) = Inl err"
  shows "addSet b x reps weight s = (Inl err, called (CreateSet (setData w x reps weight s)) s)"
  using assms by (simp add: addSet_def addSet_workout_def)

lemma addSet_createSet_failure_after_createWorkout:
  assumes "todayWorkout s = None" and "db_createWorkout b (today b) = Inr w"
    and "db_createSet b (setData w x reps weight s) = Inl err"
  shows "addSet b x reps weight s =
           (Inl err, called (CreateSet (setData w x reps weight s))
                       ((called (CreateWorkout (today b)) s)\<lparr>todayWorkout := Some w\<rparr>))"
  using assms by (simp add: addSet_def addSet_workout_def)

lemma in_memory_called [simp]: "in_memory (called c s) = in_memory s"
  by (simp add: in_memory_def)

text \<open>
  C3, as the code has it. When the remote call of \<open>createExercise\<close>, \<open>deleteExercise\<close> or
  \<open>deleteSet\<close> fails, the operation rejects with that error and \<open>exercises\<close>,
  \<open>todayWorkout\<close> and \<open>todaySets\<close> are as before. So it is for \<open>addSet\<close> when its first
  remote call fails (\<open>createWorkout\<close> when there is no workout today, \<open>createSet\<close> when there
  is one). When \<open>addSet\<close> has created today's workout and \<open>createSet\<close> then fails, it
  rejects with \<open>exercises\<close> and \<open>todaySets\<close> as before and \<open>todayWorkout\<close> set to the
  workout just created.
\<close>

theorem mutation_failure_leaves_memory:
  "(db_createExercise b ed = Inl err \<longrightarrow>
      fst (createExercise b ed s) = Inl err \<and> in_memory (snd (createExercise b ed s)) = in_memory s)
   \<and> (db_deleteExercise b i = Inl err \<longrightarrow>
      fst (deleteExercise b i s) = Inl err \<and> in_memory (snd (deleteExercise b i s)) = in_memory s)
   \<and> (db_deleteSet b i = Inl err \<longrightarrow>
      fst (deleteSet b i s) = Inl err \<and> in_memory (snd (deleteSet b i s)) = in_memory s)
   \<and> (todayWorkout s = None \<and> db_createWorkout b (today b) = Inl err \<longrightarrow>
      fst (addSet b x reps weight s) = Inl err
      \<and> in_memory (snd (addSet b x reps weight s)) = in_memory s)
   \<and> (todayWorkout s = Some w \<and> db_createSet b (setData w x reps weight s) = Inl err \<longrightarrow>
      fst (addSet b x reps weight s) = Inl err
      \<and> in_memory (snd (addSet b x reps weight s)) = in_memory s)
   \<and> (todayWorkout s = None \<and> db_createWorkout b (today b) = Inr w
        \<and> db_createSet b (setData w x reps weight s) = Inl err \<longrightarrow>
      fst (addSet b x reps weight s) = Inl err
      \<and> in_memory (snd (addSet b x reps weight s)) = (exercises s, Some w, todaySets s))"
proof (intro conjI impI; (elim conjE)?)
  assume "db_createExercise b ed = Inl err"
  then show "fst (createExercise b ed s) = Inl err"
    and "in_memory (snd (createExercise b ed s)) = in_memory s"
    by (simp_all add: createExercise_remote_failure)
next
  assume "db_deleteExercise b i = Inl err"
  then show "fst (deleteExercise b i s) = Inl err"
    and "in_memory (snd (deleteExercise b i s)) = in_memory s"
    by (simp_all add: deleteExercise_remote_failure)
next
  assume "db_deleteSet b i = Inl err"
  then show "fst (deleteSet b i s) = Inl err"
    and "in_memory (snd (deleteSet b i s)) = in_memory s"
    by (simp_all add: deleteSet_remote_failure)
next
  assume "todayWorkout s = None" "db_createWorkout b (today b) = Inl err"
  then show "fst (addSet b x reps weight s) = Inl err"
    and "in_memory (snd (addSet b x reps weight s)) = in_memory s"
    by (simp_all add: addSet_createWorkout_failure)
next
  assume "todayWorkout s = Some w" "db_createSet b (setData w x reps weight s) = Inl err"
  then show "fst (addSet b x reps weight s) = Inl err"
    and "in_memory (snd (addSet b x reps weight s)) = in_memory s"
    by (simp_all add: addSet_createSet_failure)
next
  assume "todayWorkout s = None" "db_createWorkout b (today b) = Inr w"
    "db_createSet b (setData w x reps weight s) = Inl err"
  then show "fst (addSet b x reps weight s) = Inl err"
    and "in_memory (snd (addSet b x reps weight s)) = (exercises s, Some w, todaySets s)"
    by (simp_all add: addSet_createSet_failure_after_createWorkout in_memory_def)
qed

lemmas sample_defs =
  backend0_def offline_def state0_def stale_state_def connection_failure_def workout1_def
  bench_def squat_def deadlift_data_def push_ups_1_def squats_1_def push_ups_2_def
  inserted_row_def

lemmas db_defs =
  db_getExercises_def db_createExercise_def db_deleteExercise_def db_getTodaysWorkout_def
  db_createWorkout_def db_getSetsForWorkout_def db_createSet_def db_deleteSet_def
  db_exportData_def or_empty_def

theorem mutation_failure_leaves_memory_witness:
  "in_memory (snd (createExercise offline deadlift_data stale_state)) = in_memory stale_state
   \<and> in_memory (snd (deleteExercise offline ''e1'' stale_state)) = in_memory stale_state
   \<and> in_memory (snd (deleteSet offline ''e1'' stale_state)) = in_memory stale_state
   \<and> in_memory (snd (addSet offline ''e1'' (Num 5) None state0)) = in_memory state0
   \<and> in_memory (snd (addSet offline ''e1'' (Num 5) None stale_state)) = in_memory stale_state
   \<and> in_memory (snd (addSet (backend0\<lparr>sets_insert := \<lambda>sd. Inl connection_failure\<rparr>)
                          ''e1'' (Num 5) None state0))
       = ([], Some workout1, [])"
  using mutation_failure_leaves_memory
          [of offline deadlift_data "StoreError connection_failure" stale_state "''e1''"
              "''e1''" "Num 5" None workout1]
        mutation_failure_leaves_memory
          [of offline deadlift_data "StoreError connection_failure" state0 "''e1''"
              "''e1''" "Num 5" None workout1]
        mutation_failure_leaves_memory
          [of "backend0\<lparr>sets_insert := \<lambda>sd. Inl connection_failure\<rparr>" deadlift_data
              "StoreError connection_failure" state0 "''e1''" "''e1''" "Num 5" None workout1]
  by (simp add: sample_defs db_defs)

text \<open>
  Against C3 as stated: with no workout today, a store that creates the workout and then
  fails to create the set makes \<open>addSet\<close> reject with \<open>todayWorkout\<close> changed.
\<close>

theorem addSet_failure_keeps_created_workout:
  "db_createSet (backend0\<lparr>sets_insert := \<lambda>sd. Inl connection_failure\<rparr>)
       (setData workout1 ''e1'' (Num 5) None state0) = Inl (StoreError connection_failure)
   \<and> fst (addSet (backend0\<lparr>sets_insert := \<lambda>sd. Inl connection_failure\<rparr>)
             ''e1'' (Num 5) None state0) = Inl (StoreError connection_failure)
   \<and> todayWorkout (snd (addSet (backend0\<lparr>sets_insert := \<lambda>sd. Inl connection_failure\<rparr>)
                             ''e1'' (Num 5) None state0)) = Some workout1
   \<and> todayWorkout state0 = None"
  by (simp add: addSet_def addSet_workout_def sample_defs db_defs)

text \<open>
  C9. A successful \<open>deleteExercise\<close> leaves in \<open>exercises\<close> the entries with another id,
  in their order, and writes that list to the local storage. Whether it succeeds or not,
  \<open>todayWorkout\<close> and \<open>todaySets\<close> are untouched, the sets of the deleted exercise
  included.
\<close>

theorem deleteExercise_removes_only_exercise:
  "todayWorkout (snd (deleteExercise b i s)) = todayWorkout s
   \<and> todaySets (snd (deleteExercise b i s)) = todaySets s
   \<and> (fst (deleteExercise b i s) = Inr () \<longrightarrow>
        exercises (snd (deleteExercise b i s)) = filter (\<lambda>ex. ex_id ex \<noteq> i) (exercises s)
        \<and> storage (snd (deleteExercise b i s)) = Some (filter (\<lambda>ex. ex_id ex \<noteq> i) (exercises s)))"
  by (simp add: deleteExercise_def Let_def split: sum.splits)

theorem deleteExercise_removes_only_exercise_witness:
  "fst (deleteExercise backend0 ''e1'' (stale_state\<lparr>exercises := [bench, squat]\<rparr>)) = Inr ()
   \<and> exercises (snd (deleteExercise backend0 ''e1'' (stale_state\<lparr>exercises := [bench, squat]\<rparr>)))
       = [squat]
   \<and> todaySets (snd (deleteExercise backend0 ''e1'' (stale_state\<lparr>exercises := [bench, squat]\<rparr>)))
       = [push_ups_1]
   \<and> s_exercise_id push_ups_1 = ''e1''"
  using deleteExercise_removes_only_exercise
          [of backend0 "''e1''" "stale_state\<lparr>exercises := [bench, squat]\<rparr>"]
  by (simp add: deleteExercise_def Let_def sample_defs db_defs)

section \<open>Adding a set: properties\<close>

lemma addSet_success_cases:
  assumes "fst (addSet b x reps weight s) = Inr newSet"
  obtains w where "db_createSet b (setData w x reps weight s) = Inr newSet"
    and "todayWorkout (snd (addSet b x reps weight s)) = Some w"
    and "todaySets (snd (addSet b x reps weight s)) =
           todaySets s @ [newSet\<lparr>s_exercise :=
              Some (display_name (find (\<lambda>ex. ex_id ex = x) (exercises s)))\<rparr>]"
    and "last (remote_log (snd (addSet b x reps weight s))) = CreateSet (setData w x reps weight s)"
  using assms
  by (auto simp: addSet_def addSet_workout_def Let_def split: option.splits sum.splits)

text \<open>
  C5. A successful \<open>addSet\<close> appends exactly one entry to \<open>todaySets\<close>: the row the
  store returned, with the exercise's display name. The entries before it are the prior
  ones, and the \<open>order_index\<close> sent to the store is the prior length of \<open>todaySets\<close>; it
  is the \<open>order_index\<close> of the new entry when the store returns the row it was given.
  This holds for every \<open>reps\<close> and \<open>weight\<close>, so for \<open>reps\<close> in 1..999 and \<open>weight\<close> in
  0..9999 or absent.
\<close>

theorem addSet_appends_one:
  assumes "fst (addSet b x reps weight s) = Inr newSet"
    and "\<And>sd row. sets_insert b sd = Inr row \<Longrightarrow> s_order_index row = int (sd_order_index sd)"
  shows "todaySets (snd (addSet b x reps weight s)) =
           todaySets s @ [newSet\<lparr>s_exercise :=
              Some (display_name (find (\<lambda>ex. ex_id ex = x) (exercises s)))\<rparr>]
         \<and> length (todaySets (snd (addSet b x reps weight s))) = length (todaySets s) + 1
         \<and> take (length (todaySets s)) (todaySets (snd (addSet b x reps weight s))) = todaySets s
         \<and> s_order_index (last (todaySets (snd (addSet b x reps weight s))))
             = int (length (todaySets s))
         \<and> s_order_index newSet = int (length (todaySets s))
         \<and> (\<exists>w. last (remote_log (snd (addSet b x reps weight s)))
                   = CreateSet (setData w x reps weight s)
                 \<and> sd_order_index (setData w x reps weight s) = length (todaySets s))"
proof -
  from assms(1) obtain w where
    created: "db_createSet b (setData w x reps weight s) = Inr newSet"
    and sets: "todaySets (snd (addSet b x reps weight s)) =
           todaySets s @ [newSet\<lparr>s_exercise :=
              Some (display_name (find (\<lambda>ex. ex_id ex = x) (exercises s)))\<rparr>]"
    and log: "last (remote_log (snd (addSet b x reps weight s)))
                = CreateSet (setData w x reps weight s)"
    by (rule addSet_success_cases)
  from created have "sets_insert b (setData w x reps weight s) = Inr newSet"
    by (simp add: db_createSet_def split: sum.splits)
  then have "s_order_index newSet = int (sd_order_index (setData w x reps weight s))"
    by (rule assms(2))
  then have idx: "s_order_index newSet = int (length (todaySets s))"
    by (simp add: setData_def)
  have sent: "sd_order_index (setData w x reps weight s) = length (todaySets s)"
    by (simp add: setData_def)
  from sets idx log sent show ?thesis
    by auto
qed

theorem addSet_appends_one_witness:
  "todaySets (snd (addSet backend0 ''e2'' (Num 8) (Some (Num 20))
                     (stale_state\<lparr>exercises := [bench, squat]\<rparr>)))
     = [push_ups_1,
        \<lparr> s_id = ''s9'', s_workout_id = ''w1'', s_exercise_id = ''e2'', s_reps = 8,
          s_weight = Some 20, s_order_index = 1, s_exercise = Some ''Squat'' \<rparr>]"
proof -
  have ok: "fst (addSet backend0 ''e2'' (Num 8) (Some (Num 20))
                   (stale_state\<lparr>exercises := [bench, squat]\<rparr>))
              = Inr \<lparr> s_id = ''s9'', s_workout_id = ''w1'', s_exercise_id = ''e2'', s_reps = 8,
                      s_weight = Some 20, s_order_index = 1, s_exercise = None \<rparr>"
    by (simp add: addSet_def addSet_workout_def setData_def Let_def sample_defs db_defs)
  have echo: "s_order_index row = int (sd_order_index sd)"
    if "sets_insert backend0 sd = Inr row" for sd row
    using that by (auto simp: backend0_def inserted_row_def)
  from addSet_appends_one [OF ok echo] show ?thesis
    by (simp add: sample_defs display_name_def)
qed








section \<open>The exercise list stays sorted by name\<close>

lemma consistent_cmp_total: "consistent_cmp c \<Longrightarrow> 0 < c x y \<Longrightarrow> c y x \<le> 0"
  unfolding consistent_cmp_def by (metis not_less)

lemma consistent_cmp_trans:
  "consistent_cmp c \<Longrightarrow> c x y \<le> 0 \<Longrightarrow> c y z \<le> 0 \<Longrightarrow> c x z \<le> 0"
  unfolding consistent_cmp_def by blast

lemma consistent_by_name: "consistent_cmp (localeCompare b) \<Longrightarrow> consistent_cmp (by_name b)"
  unfolding consistent_cmp_def by_name_def by blast

lemma set_insert_cmp: "set (insert_cmp c x xs) = insert x (set xs)"
  by (induction xs) auto

lemma sorted_insert_cmp:
  assumes "consistent_cmp c" and "sorted_wrt (\<lambda>x y. c x y \<le> 0) xs"
  shows "sorted_wrt (\<lambda>x y. c x y \<le> 0) (insert_cmp c x xs)"
  using assms(2)
proof (induction xs)
  case Nil
  then show ?case by simp
next
  case (Cons y ys)
  show ?case
  proof (cases "c x y \<le> 0")
    case True
    have "c x z \<le> 0" if "z \<in> set ys" for z
      using Cons.prems that True consistent_cmp_trans [OF assms(1)] by auto
    with True Cons.prems show ?thesis by auto
  next
    case False
    then have "c y x \<le> 0"
      using consistent_cmp_total [OF assms(1)] by simp
    with False Cons show ?thesis
      by (auto simp: set_insert_cmp)
  qed
qed

lemma sorted_sort_cmp:
  assumes "consistent_cmp c"
  shows "sorted_wrt (\<lambda>x y. c x y \<le> 0) (sort_cmp c xs)"
  unfolding sort_cmp_def
  by (induction xs) (simp_all add: sorted_insert_cmp [OF assms])

lemma insert_cmp_least:
  assumes "\<forall>y\<in>set xs. c x y \<le> 0"
  shows "insert_cmp c x xs = x # xs"
  using assms by (cases xs) simp_all

lemma sort_cmp_snoc:
  assumes "consistent_cmp c" and "sorted_wrt (\<lambda>x y. c x y \<le> 0) xs"
  shows "sort_cmp c (xs @ [x]) =
           takeWhile (\<lambda>y. c y x \<le> 0) xs @ x # dropWhile (\<lambda>y. c y x \<le> 0) xs"
  using assms(2)
proof (induction xs)
  case Nil
  then show ?case by (simp add: sort_cmp_def)
next
  case (Cons y ys)
  then have IH: "sort_cmp c (ys @ [x]) =
           takeWhile (\<lambda>z. c z x \<le> 0) ys @ x # dropWhile (\<lambda>z. c z x \<le> 0) ys"
    and least: "\<forall>z\<in>set ys. c y z \<le> 0"
    by simp_all
  have step: "sort_cmp c (y # ys @ [x]) = insert_cmp c y (sort_cmp c (ys @ [x]))"
    by (simp add: sort_cmp_def)
  show ?case
  proof (cases "c y x \<le> 0")
    case True
    have "\<forall>z\<in>set (takeWhile (\<lambda>z. c z x \<le> 0) ys @ x # dropWhile (\<lambda>z. c z x \<le> 0) ys).
            c y z \<le> 0"
      using True least by (auto dest: set_takeWhileD set_dropWhileD)
    then have "insert_cmp c y
                 (takeWhile (\<lambda>z. c z x \<le> 0) ys @ x # dropWhile (\<lambda>z. c z x \<le> 0) ys)
               = y # takeWhile (\<lambda>z. c z x \<le> 0) ys @ x # dropWhile (\<lambda>z. c z x \<le> 0) ys"
      by (rule insert_cmp_least)
    then show ?thesis
      using True by (simp add: step IH del: insert_cmp.simps)
  next
    case False
    have none: "takeWhile (\<lambda>z. c z x \<le> 0) ys = []"
    proof (cases ys)
      case Nil
      then show ?thesis by simp
    next
      case (Cons z zs)
      have "\<not> c z x \<le> 0"
      proof
        assume "c z x \<le> 0"
        moreover have "c y z \<le> 0" using least Cons by simp
        ultimately have "c y x \<le> 0" by (rule consistent_cmp_trans [OF assms(1), rotated])
        with False show False by simp
      qed
      with Cons show ?thesis by simp
    qed
    then have all: "dropWhile (\<lambda>z. c z x \<le> 0) ys = ys"
      by (metis append_Nil takeWhile_dropWhile_id)
    have "insert_cmp c y (x # ys) = x # insert_cmp c y ys"
      using False by simp
    also have "insert_cmp c y ys = y # ys"
      using least by (rule insert_cmp_least)
    finally show ?thesis
      using False by (simp add: step IH none all)
  qed
qed

lemma name_sorted_filter: "name_sorted b xs \<Longrightarrow> name_sorted b (filter P xs)"
  unfolding name_sorted_def by (rule sorted_wrt_filter)

lemma loadTodayWorkout_keeps_exercises [simp]:
  "exercises (snd (loadTodayWorkout b s)) = exercises s"
  by (simp add: loadTodayWorkout_def Let_def split: sum.splits option.splits)

lemma syncData_exercises:
  "exercises (snd (syncData b s)) =
     (case db_getExercises b of Inl err \<Rightarrow> exercises s | Inr xs \<Rightarrow> xs)"
  by (simp add: syncData_def Let_def split: sum.splits)

lemma loadData_exercises:
  "exercises (snd (loadData b s)) =
     (if getItem_fails b then exercises s
      else (case db_getExercises b of
              Inl err \<Rightarrow> (case storage s of None \<Rightarrow> exercises s | Some cached \<Rightarrow> cached)
            | Inr xs \<Rightarrow> xs))"
  by (simp add: loadData_def syncData_exercises Let_def split: sum.splits option.splits)

lemma createExercise_exercises:
  "exercises (snd (createExercise b ed s)) =
     (case db_createExercise b ed of
        Inl err \<Rightarrow> exercises s
      | Inr new \<Rightarrow> sort_cmp (by_name b) (exercises s @ [new]))"
  by (simp add: createExercise_def Let_def split: sum.splits)

lemma createExercise_success:
  assumes "fst (createExercise b ed s) = Inr new"
  shows "exercises (snd (createExercise b ed s)) = sort_cmp (by_name b) (exercises s @ [new])"
    and "storage (snd (createExercise b ed s)) = Some (sort_cmp (by_name b) (exercises s @ [new]))"
  using assms by (auto simp: createExercise_def Let_def split: sum.splits if_splits)

lemma deleteExercise_exercises:
  "exercises (snd (deleteExercise b i s)) =
     (case db_deleteExercise b i of
        Inl err \<Rightarrow> exercises s
      | Inr u \<Rightarrow> filter (\<lambda>ex. ex_id ex \<noteq> i) (exercises s))"
  by (simp add: deleteExercise_def Let_def split: sum.splits)

lemma other_operations_keep_exercises:
  "exercises (snd (addSet b x reps weight s)) = exercises s"
  "exercises (snd (deleteSet b i s)) = exercises s"
  "exercises (snd (exportData b s)) = exercises s"
  by (simp_all add: addSet_def addSet_workout_def deleteSet_def exportData_def Let_def
      split: sum.splits option.splits)

text \<open>
  C8. With a consistent comparison of names, a name-sorted remote listing and a
  name-sorted cached snapshot, a name-sorted list of exercises is still name-sorted after
  \<open>syncData\<close>, \<open>loadData\<close> (which first takes the cached snapshot), \<open>createExercise\<close> and
  \<open>deleteExercise\<close>; no other operation writes it. After a successful \<open>createExercise\<close>
  the list is the prior one with the created exercise put after the entries that do not
  compare greater than it, and the local storage holds that same list.
\<close>

theorem exercises_stay_name_sorted:
  assumes "consistent_cmp (localeCompare b)"
    and "name_sorted b (exercises s)"
    and "\<And>xs. db_getExercises b = Inr xs \<Longrightarrow> name_sorted b xs"
    and "\<And>xs. storage s = Some xs \<Longrightarrow> name_sorted b xs"
  shows "name_sorted b (exercises (snd (syncData b s)))
         \<and> name_sorted b (exercises (snd (loadData b s)))
         \<and> name_sorted b (exercises (snd (createExercise b ed s)))
         \<and> name_sorted b (exercises (snd (deleteExercise b i s)))
         \<and> exercises (snd (loadTodayWorkout b s)) = exercises s
         \<and> exercises (snd (addSet b x reps weight s)) = exercises s
         \<and> exercises (snd (deleteSet b i s)) = exercises s
         \<and> exercises (snd (exportData b s)) = exercises s
         \<and> (fst (createExercise b ed s) = Inr new \<longrightarrow>
              exercises (snd (createExercise b ed s))
                = takeWhile (\<lambda>y. by_name b y new \<le> 0) (exercises s)
                  @ new # dropWhile (\<lambda>y. by_name b y new \<le> 0) (exercises s)
              \<and> storage (snd (createExercise b ed s))
                  = Some (exercises (snd (createExercise b ed s))))"
proof -
  note cmp = consistent_by_name [OF assms(1)]
  have sync: "name_sorted b (exercises (snd (syncData b s)))"
    using assms(2,3) by (simp add: syncData_exercises split: sum.splits)
  have load: "name_sorted b (exercises (snd (loadData b s)))"
    using assms(2,3,4) by (simp add: loadData_exercises split: sum.splits option.splits)
  have create: "name_sorted b (exercises (snd (createExercise b ed s)))"
    using assms(2) sorted_sort_cmp [OF cmp]
    by (simp add: createExercise_exercises name_sorted_def split: sum.splits)
  have delete: "name_sorted b (exercises (snd (deleteExercise b i s)))"
    using assms(2) by (simp add: deleteExercise_exercises name_sorted_filter split: sum.splits)
  have placed: "exercises (snd (createExercise b ed s))
                = takeWhile (\<lambda>y. by_name b y new \<le> 0) (exercises s)
                  @ new # dropWhile (\<lambda>y. by_name b y new \<le> 0) (exercises s)
              \<and> storage (snd (createExercise b ed s))
                  = Some (exercises (snd (createExercise b ed s)))"
    if ok: "fst (createExercise b ed s) = Inr new"
  proof -
    have "sorted_wrt (\<lambda>x y. by_name b x y \<le> 0) (exercises s)"
      using assms(2) by (simp add: name_sorted_def)
    then have "sort_cmp (by_name b) (exercises s @ [new])
                 = takeWhile (\<lambda>y. by_name b y new \<le> 0) (exercises s)
                   @ new # dropWhile (\<lambda>y. by_name b y new \<le> 0) (exercises s)"
      by (rule sort_cmp_snoc [OF cmp])
    with createExercise_success [OF ok] show ?thesis by simp
  qed
  from sync load create delete placed show ?thesis
    by (simp add: other_operations_keep_exercises)
qed

lemma consistent_cmp_str: "consistent_cmp cmp_str"
  unfolding consistent_cmp_def cmp_str_def by auto

theorem exercises_stay_name_sorted_witness:
  "exercises (snd (createExercise backend0 deadlift_data (state0\<lparr>exercises := [bench, squat]\<rparr>)))
     = [bench,
        \<lparr> ex_id = ''e9'', ex_user_id = ''u1'', ex_name = ''Deadlift'', ex_category = None,
          ex_notes = None, ex_is_archived = False \<rparr>,
        squat]
   \<and> name_sorted backend0
        (exercises (snd (createExercise backend0 deadlift_data
                           (state0\<lparr>exercises := [bench, squat]\<rparr>))))
   \<and> name_sorted backend0 (exercises (snd (syncData backend0 (state0\<lparr>exercises := [bench, squat]\<rparr>))))
   \<and> name_sorted backend0
        (exercises (snd (deleteExercise backend0 ''e1'' (state0\<lparr>exercises := [bench, squat]\<rparr>))))"
proof -
  let ?s = "state0\<lparr>exercises := [bench, squat]\<rparr>"
  have cmp: "consistent_cmp (localeCompare backend0)"
    by (simp add: backend0_def consistent_cmp_str)
  have inv: "name_sorted backend0 (exercises ?s)"
    by (simp add: name_sorted_def by_name_def backend0_def cmp_str_def bench_def squat_def)
  have remote: "name_sorted backend0 xs" if "db_getExercises backend0 = Inr xs" for xs
    using that
    by (auto simp: name_sorted_def by_name_def backend0_def cmp_str_def bench_def squat_def
        db_getExercises_def or_empty_def)
  have cache: "name_sorted backend0 xs" if "storage ?s = Some xs" for xs
    using that by (simp add: state0_def)
  have ok: "fst (createExercise backend0 deadlift_data ?s)
              = Inr \<lparr> ex_id = ''e9'', ex_user_id = ''u1'', ex_name = ''Deadlift'',
                      ex_category = None, ex_notes = None, ex_is_archived = False \<rparr>"
    by (simp add: createExercise_def Let_def sample_defs db_defs)
  let ?new = "\<lparr> ex_id = ''e9'', ex_user_id = ''u1'', ex_name = ''Deadlift'', ex_category = None,
                 ex_notes = None, ex_is_archived = False \<rparr>"
  note all = exercises_stay_name_sorted [OF cmp inv remote cache, of deadlift_data "''e1''" "''e1''"
         "Num 5" None ?new]
  from all ok have "exercises (snd (createExercise backend0 deadlift_data ?s))
      = takeWhile (\<lambda>y. by_name backend0 y ?new \<le> 0) (exercises ?s)
        @ ?new # dropWhile (\<lambda>y. by_name backend0 y ?new \<le> 0) (exercises ?s)"
    by blast
  also have "\<dots> = [bench, ?new, squat]"
    by (simp add: by_name_def backend0_def cmp_str_def bench_def squat_def)
  finally have placed: "exercises (snd (createExercise backend0 deadlift_data ?s))
      = [bench, ?new, squat]" .
  from all have sorted: "name_sorted backend0 (exercises (snd (createExercise backend0 deadlift_data ?s)))"
    "name_sorted backend0 (exercises (snd (syncData backend0 ?s)))"
    "name_sorted backend0 (exercises (snd (deleteExercise backend0 ''e1'' ?s)))"
    by blast+
  from placed sorted show ?thesis
    by blast
qed

end
